theory Spec2Isabelle
  imports Main
begin

section \<open>Errors\<close>

text \<open>
  A Go \<^verbatim>\<open>error\<close> value. \<^verbatim>\<open>pkg.ErrUserNotFound\<close> is a package-level
  sentinel that callers compare with \<^verbatim>\<open>==\<close>; \<^verbatim>\<open>errors.New(msg)\<close> called
  inside a function yields a value that is equal to no sentinel, whatever its message;
  every error coming out of a library (the document-store driver, bcrypt, the JWT signer,
  the OTP provider) is a \<open>LibError\<close>. A nil error is \<open>None\<close>.
\<close>

datatype error =
    ErrUserNotFound
  | ErrorsNew string
  | LibError string

fun Error :: "error \<Rightarrow> string" where
  "Error ErrUserNotFound = ''user not found''"
| "Error (ErrorsNew m) = m"
| "Error (LibError m) = m"

definition ErrNoDocuments :: error where
  "ErrNoDocuments = LibError ''mongo: no documents in result''"

section \<open>Time\<close>

text \<open>
  A \<^verbatim>\<open>time.Time\<close> is the number of nanoseconds since the Unix epoch, a
  \<^verbatim>\<open>time.Duration\<close> a number of nanoseconds; \<^verbatim>\<open>Unix()\<close> is the number of whole
  seconds since the epoch.
\<close>

type_synonym time = int

definition Second :: int where
  "Second = 1000000000"

definition Hour :: int where
  "Hour = 3600 * Second"

definition Add :: "time \<Rightarrow> int \<Rightarrow> time" where
  "Add t d = t + d"

definition Unix :: "time \<Rightarrow> int" where
  "Unix t = t div 1000000000"

section \<open>Data model (pkg/auth/auth.go)\<close>

record User =
  ID :: string
  Name :: string
  Password :: string
  PhoneNumber :: string
  ProfilePic :: string
  Email :: string
  Username :: string
  UserType :: string
  DateOfBirth :: string
  Gender :: string
  CreatedAt :: time

record InUser =
  in_Name :: string
  in_Password :: string
  in_PhoneNumber :: string
  in_ProfilePic :: string
  in_Email :: string
  in_Username :: string
  in_DateOfBirth :: string
  in_Gender :: string
  in_UserType :: string

record OutUser =
  out_ID :: string
  out_Name :: string
  out_Email :: string
  out_PhoneNumber :: string
  out_ProfilePic :: string
  out_UserType :: string
  out_Username :: string
  out_DateOfBirth :: string
  out_Gender :: string
  out_CreatedAt :: time

text \<open>
  The zero \<^verbatim>\<open>time.Time\<close> is January 1 of the year 1, 00:00:00 UTC: 62135596800 seconds
  before the Unix epoch.
\<close>

definition zero_Time :: time where
  "zero_Time = - 62135596800 * Second"

text \<open>The value of \<^verbatim>\<open>var user User\<close>: every string empty, the zero time.\<close>

definition zero_User :: User where
  "zero_User = \<lparr>ID = '''', Name = '''', Password = '''', PhoneNumber = '''',
     ProfilePic = '''', Email = '''', Username = '''', UserType = '''',
     DateOfBirth = '''', Gender = '''', CreatedAt = zero_Time\<rparr>"

text \<open>The \<^verbatim>\<open>jwt.MapClaims\<close> literal of the service: its three keys.\<close>

record MapClaims =
  userid :: string
  email :: string
  exp :: int

section \<open>The collaborators\<close>

text \<open>
  What the libraries and the outside world do during one call; none of it is code of this
  repository, so each is a parameter.

  \<^item> \<open>uuid_New\<close>: the string of \<^verbatim>\<open>uuid.New()\<close>;
  \<^item> \<open>time_Now_ToUser\<close>, \<open>time_Now_claims\<close>: the readings of \<^verbatim>\<open>time.Now()\<close>
    in \<^verbatim>\<open>ToUser\<close> and where the claims are built;
  \<^item> \<open>GenerateFromPassword\<close>, \<open>CompareHashAndPassword\<close>: bcrypt, with Go's result
    pairs (bytes, err);
  \<^item> \<open>Getenv_JWT_SECRET\<close>: \<^verbatim>\<open>os.Getenv("JWT_SECRET")\<close>;
  \<^item> \<open>SignedString\<close>: the HS256 signer applied to the claims and the key;
  \<^item> \<open>find_fault\<close>: when set, \<^verbatim>\<open>FindOne(...).Decode(&user)\<close> fails with that error
    for a reason other than a missing document (connection, decoding) and leaves that
    value in \<^verbatim>\<open>user\<close>;
  \<^item> \<open>insert_fault\<close>: when set, \<^verbatim>\<open>InsertOne\<close> fails with that error;
  \<^item> \<open>godotenv_Load\<close>: the result of loading the \<^verbatim>\<open>.env\<close> file;
  \<^item> \<open>Getenv_TWILIO_SERVICES_ID\<close>: \<^verbatim>\<open>os.Getenv("TWILIO_SERVICES_ID")\<close>;
  \<^item> \<open>CreateVerificationCheck\<close>: the OTP provider's check, for a service id, of a code
    for a phone number: a response pointer and an error.
\<close>

record VerifyV2VerificationCheck =
  Status :: "string option"

record env =
  uuid_New :: string
  time_Now_ToUser :: time
  time_Now_claims :: time
  GenerateFromPassword :: "string \<Rightarrow> nat \<Rightarrow> string \<times> error option"
  CompareHashAndPassword :: "string \<Rightarrow> string \<Rightarrow> error option"
  Getenv_JWT_SECRET :: string
  SignedString :: "MapClaims \<Rightarrow> string \<Rightarrow> string \<times> error option"
  find_fault :: "(User \<times> error) option"
  insert_fault :: "error option"
  godotenv_Load :: "error option"
  Getenv_TWILIO_SERVICES_ID :: string
  CreateVerificationCheck ::
    "string \<Rightarrow> string \<Rightarrow> string \<Rightarrow> VerifyV2VerificationCheck option \<times> error option"

section \<open>Conversions and hashing (pkg/auth/auth.go)\<close>

definition MinCost :: nat where
  "MinCost = 4"

text \<open>\<^verbatim>\<open>bytes, _ := bcrypt.GenerateFromPassword(...)\<close>: the error is dropped.\<close>

definition hashPassword :: "env \<Rightarrow> string \<Rightarrow> string" where
  "hashPassword e password =
     (case GenerateFromPassword e password MinCost of (bytes, _) \<Rightarrow> bytes)"

definition ToUser :: "env \<Rightarrow> InUser \<Rightarrow> User" where
  "ToUser e inp =
     (let uuid = uuid_New e in
      \<lparr>ID = uuid,
       Name = in_Name inp,
       Password = hashPassword e (in_Password inp),
       PhoneNumber = in_PhoneNumber inp,
       ProfilePic = in_ProfilePic inp,
       Email = in_Email inp,
       Username = in_Username inp,
       UserType = in_UserType inp,
       DateOfBirth = in_DateOfBirth inp,
       Gender = in_Gender inp,
       CreatedAt = time_Now_ToUser e\<rparr>)"

definition ToOutUser :: "User \<Rightarrow> OutUser" where
  "ToOutUser u =
     \<lparr>out_ID = ID u,
      out_Name = Name u,
      out_Email = Email u,
      out_PhoneNumber = PhoneNumber u,
      out_ProfilePic = ProfilePic u,
      out_UserType = UserType u,
      out_Username = Username u,
      out_DateOfBirth = DateOfBirth u,
      out_Gender = Gender u,
      out_CreatedAt = CreatedAt u\<rparr>"

section \<open>The repository (pkg/auth/repo.go)\<close>

text \<open>
  The collection \<^verbatim>\<open>users\<close> is the list of its documents in insertion order.
  \<^verbatim>\<open>FindOne(ctx, filter).Decode(&user)\<close> on a \<^verbatim>\<open>user\<close> that holds the zero value:
  the first document that satisfies the filter, or \<^verbatim>\<open>mongo.ErrNoDocuments\<close> with
  \<^verbatim>\<open>user\<close> untouched, or the fault of the environment.
\<close>

definition FindOne_Decode :: "env \<Rightarrow> User list \<Rightarrow> (User \<Rightarrow> bool) \<Rightarrow> User \<times> error option" where
  "FindOne_Decode e db flt =
     (case find_fault e of
        Some (user, err) \<Rightarrow> (user, Some err)
      | None \<Rightarrow>
          (case find flt db of
             None \<Rightarrow> (zero_User, Some ErrNoDocuments)
           | Some doc \<Rightarrow> (doc, None)))"

text \<open>
  A document holds a \<^verbatim>\<open>time.Time\<close> as a BSON datetime, a number of whole milliseconds:
  what is read back is the time written, cut to the millisecond. The strings of a User
  are stored as they are.
\<close>

definition bson_DateTime :: "time \<Rightarrow> time" where
  "bson_DateTime t = (t div 1000000) * 1000000"

definition bson_User :: "User \<Rightarrow> User" where
  "bson_User u = u\<lparr>CreatedAt := bson_DateTime (CreatedAt u)\<rparr>"

definition InsertOne :: "env \<Rightarrow> User list \<Rightarrow> User \<Rightarrow> error option \<times> User list" where
  "InsertOne e db doc =
     (case insert_fault e of
        Some err \<Rightarrow> (Some err, db)
      | None \<Rightarrow> (None, db @ [bson_User doc]))"

definition ReadByEmail :: "env \<Rightarrow> User list \<Rightarrow> string \<Rightarrow> User \<times> error option" where
  "ReadByEmail e db email' =
     (case FindOne_Decode e db (\<lambda>doc. Email doc = email') of
        (user, err) \<Rightarrow>
          if err \<noteq> None then (user, Some ErrUserNotFound)
          else (user, None))"

definition ReadByPhoneNumber :: "env \<Rightarrow> User list \<Rightarrow> string \<Rightarrow> User \<times> error option" where
  "ReadByPhoneNumber e db phone =
     (case FindOne_Decode e db (\<lambda>doc. PhoneNumber doc = phone) of
        (user, err) \<Rightarrow>
          if err \<noteq> None then (user, Some ErrUserNotFound)
          else (user, None))"

definition ReadByUsernanme :: "env \<Rightarrow> User list \<Rightarrow> string \<Rightarrow> User \<times> error option" where
  "ReadByUsernanme e db username =
     (case FindOne_Decode e db (\<lambda>doc. Username doc = username) of
        (user, err) \<Rightarrow>
          if err \<noteq> None then (user, Some (ErrorsNew ''user not found with this email''))
          else (user, None))"

definition Create :: "env \<Rightarrow> User list \<Rightarrow> InUser \<Rightarrow> (User \<times> error option) \<times> User list" where
  "Create e db inp =
     (let user = ToUser e inp in
      case InsertOne e db user of
        (err, db') \<Rightarrow>
          if err \<noteq> None then ((user, err), db')
          else ((user, None), db'))"

section \<open>The service (Svc: SignUp, Login, LoginPhoneOtp)\<close>

text \<open>
  Each method returns Go's pair (token, err); \<open>SignUp\<close> also returns the collection
  after the call, the two logins leave it as it is.
\<close>

definition SignUp :: "env \<Rightarrow> User list \<Rightarrow> InUser \<Rightarrow> (string \<times> error option) \<times> User list" where
  "SignUp e db inp =
     (case ReadByEmail e db (in_Email inp) of
        (user, err) \<Rightarrow>
          if \<not> (err = Some ErrUserNotFound) \<and> err \<noteq> None then (('''', err), db)
          else if Email user = in_Email inp then
            (('''', Some (ErrorsNew ''user with id already exists'')), db)
          else
            (case Create e db inp of
               ((create, err), db') \<Rightarrow>
                 if err \<noteq> None then (('''', err), db')
                 else
                   (let claims = \<lparr>userid = ID create, email = Email create,
                                   exp = Unix (Add (time_Now_claims e) (Hour * 72))\<rparr> in
                    case SignedString e claims (Getenv_JWT_SECRET e) of
                      (refresh, err) \<Rightarrow>
                        if err \<noteq> None then (('''', err), db')
                        else ((refresh, None), db'))))"

definition Login :: "env \<Rightarrow> User list \<Rightarrow> string \<Rightarrow> string \<Rightarrow> string \<times> error option" where
  "Login e db email' password =
     (case ReadByEmail e db email' of
        (user, err) \<Rightarrow>
          if err \<noteq> None then ('''', err)
          else
            (let err = CompareHashAndPassword e (Password user) password in
             if err \<noteq> None then ('''', err)
             else
               (let claims = \<lparr>userid = ID user, email = Email user,
                               exp = Unix (Add (time_Now_claims e) (Hour * 72))\<rparr> in
                case SignedString e claims (Getenv_JWT_SECRET e) of
                  (refresh, err) \<Rightarrow>
                    if err \<noteq> None then ('''', err)
                    else (refresh, None))))"

definition LoginPhoneOtp :: "env \<Rightarrow> User list \<Rightarrow> string \<Rightarrow> string \<times> error option" where
  "LoginPhoneOtp e db phone =
     (case ReadByPhoneNumber e db phone of
        (user, err) \<Rightarrow>
          if err \<noteq> None then ('''', err)
          else
            (let claims = \<lparr>userid = ID user, email = Email user,
                            exp = Unix (Add (time_Now_claims e) (Hour * 72))\<rparr> in
             case SignedString e claims (Getenv_JWT_SECRET e) of
               (refresh, err) \<Rightarrow>
                 if err \<noteq> None then ('''', err)
                 else (refresh, None)))"

section \<open>The OTP boundary (api/routes: twilioVerifyOTP, verifySMS)\<close>

text \<open>
  A call either returns, or panics (a nil pointer is dereferenced), or ends the process
  (\<^verbatim>\<open>log.Fatal\<close>).
\<close>

datatype 'a outcome = Ret 'a | Panic | Fatal

record OTPData =
  otp_PhoneNumber :: string

record VerifyData =
  vd_User :: "OTPData option"
  vd_Code :: string

text \<open>
  What the handler writes: nothing, the \<^verbatim>\<open>jsonResponse\<close> of \<^verbatim>\<open>errorJSON\<close>
  (HTTP status, Status, Message), or the map of the success branch (HTTP status, status,
  message, token).
\<close>

datatype response =
    NoResponse
  | ErrorJSON int int string
  | TokenJSON int int string string

definition StatusBadRequest :: int where
  "StatusBadRequest = 400"

definition StatusOK :: int where
  "StatusOK = 200"

definition errorJSON :: "error \<Rightarrow> response" where
  "errorJSON err = (let statusCode = StatusBadRequest in ErrorJSON statusCode statusCode (Error err))"

definition envSERVICESID :: "env \<Rightarrow> string outcome" where
  "envSERVICESID e =
     (let err = godotenv_Load e in
      if err \<noteq> None then Fatal
      else Ret (Getenv_TWILIO_SERVICES_ID e))"

definition twilioVerifyOTP :: "env \<Rightarrow> string \<Rightarrow> string \<Rightarrow> error option outcome" where
  "twilioVerifyOTP e phoneNumber code =
     (case envSERVICESID e of
        Fatal \<Rightarrow> Fatal
      | Panic \<Rightarrow> Panic
      | Ret sid \<Rightarrow>
          (case CreateVerificationCheck e sid phoneNumber code of
             (resp, err) \<Rightarrow>
               if err \<noteq> None then Ret err
               else
                 (case resp of
                    None \<Rightarrow> Panic
                  | Some r \<Rightarrow>
                      (case Status r of
                         None \<Rightarrow> Panic
                       | Some st \<Rightarrow>
                           if st = ''approved'' then Ret None
                           else Ret None))))"

text \<open>
  The handler, from the result of \<^verbatim>\<open>c.BodyParser(&payload)\<close> on: the response
  written and the error returned to the framework.
\<close>

definition verifySMS :: "env \<Rightarrow> User list \<Rightarrow> VerifyData \<times> error option \<Rightarrow> (response \<times> error option) outcome" where
  "verifySMS e db parsed =
     (case parsed of
        (payload, err) \<Rightarrow>
          if err \<noteq> None then Ret (NoResponse, err)
          else
            (let newData = \<lparr>vd_User = vd_User payload, vd_Code = vd_Code payload\<rparr> in
             case vd_User newData of
               None \<Rightarrow> Panic
             | Some usr \<Rightarrow>
                 (case LoginPhoneOtp e db (otp_PhoneNumber usr) of
                    (token, Some err) \<Rightarrow> Ret (errorJSON err, Some err)
                  | (token, None) \<Rightarrow>
                      (case twilioVerifyOTP e (otp_PhoneNumber usr) (vd_Code newData) of
                         Fatal \<Rightarrow> Fatal
                       | Panic \<Rightarrow> Panic
                       | Ret (Some err) \<Rightarrow> Ret (errorJSON err, Some err)
                       | Ret None \<Rightarrow>
                           Ret (TokenJSON StatusOK StatusOK ''OTP verified successfully'' token,
                                None)))))"

section \<open>Example data\<close>

text \<open>
  A stored user, a registration input, and collaborators that all work: a hasher that
  prefixes the plaintext, a signer that writes the subject and the email into the token,
  and an OTP provider that answers every check with the status \<open>pending\<close>.
\<close>

definition alice :: User where
  "alice = \<lparr>ID = ''u0'', Name = ''Alice'', Password = ''$2a$04$p1'',
     PhoneNumber = ''+15550100'', ProfilePic = '''', Email = ''a@x.com'',
     Username = ''alice'', UserType = ''user'', DateOfBirth = ''2000-01-01'',
     Gender = '''', CreatedAt = 0\<rparr>"

definition bob_in :: "string \<Rightarrow> InUser" where
  "bob_in mail = \<lparr>in_Name = ''Bob'', in_Password = ''p2'', in_PhoneNumber = ''+15550101'',
     in_ProfilePic = '''', in_Email = mail, in_Username = ''bob'',
     in_DateOfBirth = ''2001-02-03'', in_Gender = '''', in_UserType = ''user''\<rparr>"

definition env0 :: env where
  "env0 = \<lparr>uuid_New = ''u1'',
     time_Now_ToUser = 1000000000,
     time_Now_claims = 1500000000,
     GenerateFromPassword = (\<lambda>p c. (''$2a$04$'' @ p, None)),
     CompareHashAndPassword = (\<lambda>h p.
        if h = ''$2a$04$'' @ p then None
        else Some (LibError ''crypto/bcrypt: hashedPassword is not the hash of the given password'')),
     Getenv_JWT_SECRET = ''k'',
     SignedString = (\<lambda>c k. (''jwt.'' @ userid c @ ''.'' @ email c, None)),
     find_fault = None,
     insert_fault = None,
     godotenv_Load = None,
     Getenv_TWILIO_SERVICES_ID = ''VA0'',
     CreateVerificationCheck = (\<lambda>sid p c. (Some \<lparr>Status = Some ''pending''\<rparr>, None))\<rparr>"

text \<open>The same, with a document store that cannot be reached.\<close>

definition env_down :: env where
  "env_down = env0\<lparr>find_fault := Some (zero_User, LibError ''connection refused'')\<rparr>"

text \<open>
  The same as \<open>env0\<close>, with a hasher that, as bcrypt does, refuses a password of more
  than 72 bytes with an error and no bytes; and bob registering with a password of 73
  bytes.
\<close>

definition env_hashfail :: env where
  "env_hashfail = env0\<lparr>GenerateFromPassword :=
     (\<lambda>p c. if length p > 72
        then ('''', Some (LibError ''bcrypt: password length exceeds 72 bytes''))
        else (''$2a$04$'' @ p, None))\<rparr>"

definition bob_long :: InUser where
  "bob_long = (bob_in ''b@x.com'')\<lparr>in_Password := replicate 73 (CHR ''a'')\<rparr>"

text \<open>
  A signer with a decoder: it signs the claims of the two users of these examples and
  refuses every other claim set, so that decoding inverts it.
\<close>

definition demo_SignedString :: "MapClaims \<Rightarrow> string \<Rightarrow> string \<times> error option" where
  "demo_SignedString c k =
     (if c = \<lparr>userid = ''u0'', email = ''a@x.com'', exp = 259201\<rparr> then (''tokA'', None)
      else if c = \<lparr>userid = ''u1'', email = ''b@x.com'', exp = 259201\<rparr> then (''tokB'', None)
      else ('''', Some (LibError ''key is of invalid type'')))"

definition demo_Parse :: "string \<Rightarrow> string \<Rightarrow> MapClaims option" where
  "demo_Parse k t =
     (if t = ''tokA'' then Some \<lparr>userid = ''u0'', email = ''a@x.com'', exp = 259201\<rparr>
      else if t = ''tokB'' then Some \<lparr>userid = ''u1'', email = ''b@x.com'', exp = 259201\<rparr>
      else None)"

definition env_demo :: env where
  "env_demo = env0\<lparr>SignedString := demo_SignedString\<rparr>"

section \<open>Basic facts\<close>

lemmas repo_defs = ReadByEmail_def ReadByPhoneNumber_def ReadByUsernanme_def
  FindOne_Decode_def Create_def InsertOne_def ToUser_def hashPassword_def zero_User_def
  bson_User_def bson_DateTime_def

lemmas svc_defs = SignUp_def Login_def LoginPhoneOtp_def Let_def

lemma exp_72h: "Unix (Add t (Hour * 72)) = Unix t + 72 * 3600"
  by (simp add: Unix_def Add_def Hour_def Second_def)

lemma hashPassword_fst: "hashPassword e p = fst (GenerateFromPassword e p MinCost)"
  by (simp add: hashPassword_def split: prod.splits)

lemma ToUser_sel [simp]:
  "ID (ToUser e inp) = uuid_New e"
  "Email (ToUser e inp) = in_Email inp"
  "Password (ToUser e inp) = hashPassword e (in_Password inp)"
  by (simp_all add: ToUser_def)

lemma bson_User_sel [simp]:
  "ID (bson_User u) = ID u"
  "Email (bson_User u) = Email u"
  "Password (bson_User u) = Password u"
  "PhoneNumber (bson_User u) = PhoneNumber u"
  by (simp_all add: bson_User_def)

lemma find_append_fresh:
  "find P xs = None \<Longrightarrow> P x \<Longrightarrow> find P (xs @ [x]) = Some x"
  by (induction xs) (auto split: if_splits)

lemma ReadByEmail_absent:
  "find_fault e = None \<Longrightarrow> find (\<lambda>d. Email d = m) db = None \<Longrightarrow>
   ReadByEmail e db m = (zero_User, Some ErrUserNotFound)"
  by (simp add: ReadByEmail_def FindOne_Decode_def)

lemma ReadByEmail_present:
  "find_fault e = None \<Longrightarrow> find (\<lambda>d. Email d = m) db = Some u \<Longrightarrow>
   ReadByEmail e db m = (u, None)"
  by (simp add: ReadByEmail_def FindOne_Decode_def)

lemma ReadByEmail_found:
  assumes "ReadByEmail e db m = (u, None)"
  shows "find_fault e = None \<and> find (\<lambda>d. Email d = m) db = Some u \<and> u \<in> set db \<and> Email u = m"
proof -
  from assms have "find_fault e = None" and f: "find (\<lambda>d. Email d = m) db = Some u"
    by (auto simp: ReadByEmail_def FindOne_Decode_def split: option.splits prod.splits if_splits)
  moreover from f have "u \<in> set db" "Email u = m"
    by (auto simp: find_Some_iff)
  ultimately show ?thesis by simp
qed

lemma ReadByPhoneNumber_found:
  assumes "ReadByPhoneNumber e db ph = (u, None)"
  shows "u \<in> set db \<and> PhoneNumber u = ph"
proof -
  from assms have "find (\<lambda>d. PhoneNumber d = ph) db = Some u"
    by (auto simp: ReadByPhoneNumber_def FindOne_Decode_def
        split: option.splits prod.splits if_splits)
  then show ?thesis
    by (auto simp: find_Some_iff)
qed

lemma Create_ok:
  "insert_fault e = None \<Longrightarrow>
   Create e db inp = ((ToUser e inp, None), db @ [bson_User (ToUser e inp)])"
  by (simp add: Create_def InsertOne_def Let_def)

text \<open>
  The run of \<open>SignUp\<close> in which nothing fails: no stored user has the email, the email is
  not empty, the insert and the signer succeed.
\<close>

lemma SignUp_fresh:
  assumes "find_fault e = None" and "find (\<lambda>d. Email d = in_Email inp) db = None"
    and "in_Email inp \<noteq> ''''" and "insert_fault e = None"
    and "SignedString e \<lparr>userid = uuid_New e, email = in_Email inp,
           exp = Unix (Add (time_Now_claims e) (Hour * 72))\<rparr> (Getenv_JWT_SECRET e) = (tok, None)"
  shows "SignUp e db inp = ((tok, None), db @ [bson_User (ToUser e inp)])"
proof -
  have "ReadByEmail e db (in_Email inp) = (zero_User, Some ErrUserNotFound)"
    using assms(1,2) by (rule ReadByEmail_absent)
  moreover have "Email zero_User \<noteq> in_Email inp"
    using assms(3) by (simp add: zero_User_def)
  ultimately show ?thesis
    using assms(4,5) by (simp add: SignUp_def Create_ok)
qed

text \<open>What a successful \<open>SignUp\<close> has done: the new user is stored, its claims signed.\<close>

lemma SignUp_success:
  assumes "SignUp e db inp = ((tok, None), db')"
  shows "db' = db @ [bson_User (ToUser e inp)] \<and>
         SignedString e \<lparr>userid = uuid_New e, email = in_Email inp,
           exp = Unix (Add (time_Now_claims e) (Hour * 72))\<rparr> (Getenv_JWT_SECRET e) = (tok, None)"
  using assms
  by (auto simp: SignUp_def Create_def InsertOne_def Let_def
      split: prod.splits if_splits option.splits)

lemma Login_success:
  assumes "Login e db em pw = (tok, None)"
  shows "\<exists>u. ReadByEmail e db em = (u, None) \<and>
           SignedString e \<lparr>userid = ID u, email = Email u,
             exp = Unix (Add (time_Now_claims e) (Hour * 72))\<rparr> (Getenv_JWT_SECRET e) = (tok, None)"
  using assms
  by (auto simp: Login_def Let_def split: prod.splits if_splits)

lemma LoginPhoneOtp_success:
  assumes "LoginPhoneOtp e db ph = (tok, None)"
  shows "\<exists>u. ReadByPhoneNumber e db ph = (u, None) \<and>
           SignedString e \<lparr>userid = ID u, email = Email u,
             exp = Unix (Add (time_Now_claims e) (Hour * 72))\<rparr> (Getenv_JWT_SECRET e) = (tok, None)"
  using assms
  by (auto simp: LoginPhoneOtp_def Let_def split: prod.splits if_splits)

lemma demo_roundtrip:
  "demo_SignedString c k = (t, None) \<Longrightarrow> demo_Parse k t = Some c"
  by (auto simp: demo_SignedString_def demo_Parse_def split: if_splits)

section \<open>The OTP boundary\<close>

text \<open>
  Whatever status the provider reports, \<open>twilioVerifyOTP\<close> returns a nil error as soon as
  the call itself did not fail: both branches after the test for \<open>approved\<close> return nil.
\<close>

lemma twilioVerifyOTP_status_ignored:
  assumes "godotenv_Load e = None"
    and "CreateVerificationCheck e (Getenv_TWILIO_SERVICES_ID e) phone code = (Some r, None)"
    and "Status r = Some st"
  shows "twilioVerifyOTP e phone code = Ret None"
  using assms by (simp add: twilioVerifyOTP_def envSERVICESID_def)

text \<open>
  C1. The token is returned to the caller only if the adapter's verification succeeds.
  The code does otherwise: alice is registered with the phone number +15550100, the
  provider answers the check of the code 000000 with the status \<open>pending\<close> and no
  transport error, \<open>twilioVerifyOTP\<close> returns nil, and \<open>verifySMS\<close> answers 200 with the
  token that \<open>LoginPhoneOtp\<close> issued.
\<close>

theorem verifySMS_unapproved_returns_token:
  "CreateVerificationCheck env0 ''VA0'' ''+15550100'' ''000000''
     = (Some \<lparr>Status = Some ''pending''\<rparr>, None) \<and>
   twilioVerifyOTP env0 ''+15550100'' ''000000'' = Ret None \<and>
   verifySMS env0 [alice]
       (\<lparr>vd_User = Some \<lparr>otp_PhoneNumber = ''+15550100''\<rparr>, vd_Code = ''000000''\<rparr>, None)
     = Ret (TokenJSON 200 200 ''OTP verified successfully'' ''jwt.u0.a@x.com'', None)"
  by (simp add: verifySMS_def twilioVerifyOTP_def envSERVICESID_def LoginPhoneOtp_def
      ReadByPhoneNumber_def FindOne_Decode_def Let_def env0_def alice_def StatusOK_def)

section \<open>The lookups\<close>

text \<open>Every failure of a lookup by email comes out as the same sentinel.\<close>

lemma ReadByEmail_error:
  "snd (ReadByEmail e db m) = Some err \<Longrightarrow> err = ErrUserNotFound"
  by (auto simp: ReadByEmail_def split: prod.splits if_splits)

lemma ReadByPhoneNumber_error:
  "snd (ReadByPhoneNumber e db ph) = Some err \<Longrightarrow> err = ErrUserNotFound"
  by (auto simp: ReadByPhoneNumber_def split: prod.splits if_splits)

lemma ReadByUsernanme_error:
  "snd (ReadByUsernanme e db n) = Some err \<Longrightarrow> err = ErrorsNew ''user not found with this email''"
  by (auto simp: ReadByUsernanme_def split: prod.splits if_splits)

text \<open>
  C2. A lookup's "not found" outcome is distinguishable from every other failure.
  The code does otherwise: with alice stored and the store unreachable, each of the three
  lookups of alice's own key returns exactly what it returns, on a store that works, for
  a key that no user has: \<open>ErrUserNotFound\<close> from \<open>ReadByEmail\<close> and
  \<open>ReadByPhoneNumber\<close>, the one \<open>errors.New\<close> message from \<open>ReadByUsernanme\<close>.
\<close>

theorem lookup_failure_is_not_found:
  "ReadByEmail env_down [alice] ''a@x.com'' = ReadByEmail env0 [alice] ''nobody@x.com'' \<and>
   snd (ReadByEmail env_down [alice] ''a@x.com'') = Some ErrUserNotFound \<and>
   ReadByPhoneNumber env_down [alice] ''+15550100'' = ReadByPhoneNumber env0 [alice] ''+15550199'' \<and>
   snd (ReadByPhoneNumber env_down [alice] ''+15550100'') = Some ErrUserNotFound \<and>
   ReadByUsernanme env_down [alice] ''alice'' = ReadByUsernanme env0 [alice] ''nobody'' \<and>
   snd (ReadByUsernanme env_down [alice] ''alice'')
     = Some (ErrorsNew ''user not found with this email'')"
  by (simp add: ReadByEmail_def ReadByPhoneNumber_def ReadByUsernanme_def FindOne_Decode_def
      env_down_def env0_def alice_def)

text \<open>
  What follows in \<open>SignUp\<close>, whose test for an error other than \<open>ErrUserNotFound\<close> can
  then never fire: with the store unreachable at the lookup, a second user with alice's
  email is created and gets a token.
\<close>

lemma SignUp_store_down_duplicate:
  "SignUp env_down [alice] (bob_in ''a@x.com'')
     = ((''jwt.u1.a@x.com'', None), [alice, bson_User (ToUser env_down (bob_in ''a@x.com''))])"
  by (simp add: svc_defs repo_defs env_down_def env0_def alice_def bob_in_def)

section \<open>Hashing failure\<close>

text \<open>
  What the code does with an error of the hashing primitive, for every input:
  \<open>hashPassword\<close> drops the error and returns the bytes that came with it, \<open>ToUser\<close>
  takes them as the password, and \<open>SignUp\<close> runs on as after a successful hash.
\<close>

lemma SignUp_ignores_hash_error:
  assumes "GenerateFromPassword e (in_Password inp) MinCost = (bytes, Some herr)"
    and "find_fault e = None" and "find (\<lambda>d. Email d = in_Email inp) db = None"
    and "in_Email inp \<noteq> ''''" and "insert_fault e = None"
    and "SignedString e \<lparr>userid = uuid_New e, email = in_Email inp,
           exp = Unix (Add (time_Now_claims e) (Hour * 72))\<rparr> (Getenv_JWT_SECRET e) = (tok, None)"
  shows "hashPassword e (in_Password inp) = bytes \<and>
         Password (ToUser e inp) = bytes \<and>
         SignUp e db inp = ((tok, None), db @ [bson_User (ToUser e inp)])"
  using assms by (simp add: SignUp_fresh hashPassword_def)

text \<open>
  C3. A failure of the hashing primitive during the conversion is fatal to \<open>SignUp\<close>: no
  user is created and no token is issued. The code does otherwise: bob registers with a
  password of 73 bytes, the primitive refuses it with an error and no bytes,
  \<open>hashPassword\<close> drops the error and returns the empty string where its comment promises
  the hash, and \<open>SignUp\<close> stores bob with an empty password digest and returns a token
  with a nil error.
\<close>

theorem SignUp_hash_error_not_fatal:
  "length (in_Password bob_long) = 73 \<and>
   GenerateFromPassword env_hashfail (in_Password bob_long) MinCost
     = ('''', Some (LibError ''bcrypt: password length exceeds 72 bytes'')) \<and>
   hashPassword env_hashfail (in_Password bob_long) = '''' \<and>
   SignUp env_hashfail [alice] bob_long
     = ((''jwt.u1.b@x.com'', None), [alice, bson_User (ToUser env_hashfail bob_long)]) \<and>
   Password (bson_User (ToUser env_hashfail bob_long)) = ''''"
  by (simp add: svc_defs repo_defs env_hashfail_def env0_def alice_def bob_in_def bob_long_def)

section \<open>SignUp\<close>

text \<open>
  C4. With an empty email and no stored user with an empty email, the lookup is a
  "not found" and \<open>SignUp\<close> goes on to create the user. The code does otherwise: the
  lookup does return \<open>ErrUserNotFound\<close>, with the zero User, and \<open>SignUp\<close> then compares
  that User's empty email with the empty email of the input, reports that the user
  already exists and creates nothing.
\<close>

theorem SignUp_empty_email_already_exists:
  "ReadByEmail env0 [alice] (in_Email (bob_in '''')) = (zero_User, Some ErrUserNotFound) \<and>
   SignUp env0 [alice] (bob_in '''')
     = (('''', Some (ErrorsNew ''user with id already exists'')), [alice])"
  by (simp add: svc_defs repo_defs env0_def alice_def bob_in_def)

text \<open>
  C5. When the email of the input is the email of a stored user (and the lookup itself
  completes), \<open>SignUp\<close> fails with the already-exists error, returns the empty token and
  leaves the collection as it was.
\<close>

theorem SignUp_existing_email:
  assumes "find_fault e = None" and "\<exists>u\<in>set db. Email u = in_Email inp"
  shows "SignUp e db inp = (('''', Some (ErrorsNew ''user with id already exists'')), db)"
proof -
  from assms(2) obtain doc where f: "find (\<lambda>d. Email d = in_Email inp) db = Some doc"
    by (cases "find (\<lambda>d. Email d = in_Email inp) db") (auto simp: find_None_iff)
  then have "Email doc = in_Email inp"
    by (auto simp: find_Some_iff)
  moreover from assms(1) f have "ReadByEmail e db (in_Email inp) = (doc, None)"
    by (rule ReadByEmail_present)
  ultimately show ?thesis
    by (simp add: SignUp_def)
qed

theorem SignUp_existing_email_witness:
  "find_fault env0 = None \<and> alice \<in> set [alice] \<and> Email alice = in_Email (bob_in ''a@x.com'') \<and>
   SignUp env0 [alice] (bob_in ''a@x.com'')
     = (('''', Some (ErrorsNew ''user with id already exists'')), [alice])"
proof -
  have h1: "find_fault env0 = None"
    by (simp add: env0_def)
  have h2: "\<exists>u\<in>set [alice]. Email u = in_Email (bob_in ''a@x.com'')"
    by (simp add: alice_def bob_in_def)
  from SignUp_existing_email [OF h1 h2] h1 h2 show ?thesis by simp
qed

text \<open>
  C8. For a registration input with an email (not empty) that no stored user has, with
  the store reachable and the signer returning a non-empty token, \<open>SignUp\<close> succeeds with
  that token; a lookup by that email afterwards returns the new user, whose password
  field is the digest of the hasher, and so is not the submitted plaintext whenever the
  hasher does not return the plaintext itself.
\<close>

theorem SignUp_then_ReadByEmail:
  assumes valid: "in_Email inp \<noteq> ''''"
    and fresh: "\<forall>u\<in>set db. Email u \<noteq> in_Email inp"
    and up: "find_fault e = None" "insert_fault e = None"
    and sign: "SignedString e \<lparr>userid = uuid_New e, email = in_Email inp,
           exp = Unix (Add (time_Now_claims e) (Hour * 72))\<rparr> (Getenv_JWT_SECRET e) = (tok, None)"
    and nonempty: "tok \<noteq> ''''"
    and digest: "fst (GenerateFromPassword e (in_Password inp) MinCost) \<noteq> in_Password inp"
    and up': "find_fault e' = None"
  shows "\<exists>db' u. SignUp e db inp = ((tok, None), db') \<and> tok \<noteq> '''' \<and>
           ReadByEmail e' db' (in_Email inp) = (u, None) \<and>
           Email u = in_Email inp \<and>
           Password u = hashPassword e (in_Password inp) \<and>
           Password u \<noteq> in_Password inp"
proof -
  from fresh have none: "find (\<lambda>d. Email d = in_Email inp) db = None"
    by (auto simp: find_None_iff)
  with valid up sign
  have su: "SignUp e db inp = ((tok, None), db @ [bson_User (ToUser e inp)])"
    by (simp add: SignUp_fresh)
  from none have "find (\<lambda>d. Email d = in_Email inp) (db @ [bson_User (ToUser e inp)])
      = Some (bson_User (ToUser e inp))"
    by (simp add: find_append_fresh)
  with up' have rd: "ReadByEmail e' (db @ [bson_User (ToUser e inp)]) (in_Email inp)
      = (bson_User (ToUser e inp), None)"
    by (rule ReadByEmail_present)
  from digest have "hashPassword e (in_Password inp) \<noteq> in_Password inp"
    by (simp add: hashPassword_fst)
  with su rd nonempty show ?thesis by simp
qed

theorem SignUp_then_ReadByEmail_witness:
  "in_Email (bob_in ''b@x.com'') \<noteq> '''' \<and>
   Email alice \<noteq> in_Email (bob_in ''b@x.com'') \<and>
   find_fault env0 = None \<and> insert_fault env0 = None \<and>
   fst (GenerateFromPassword env0 (in_Password (bob_in ''b@x.com'')) MinCost)
     \<noteq> in_Password (bob_in ''b@x.com'') \<and>
   (\<exists>db' u. SignUp env0 [alice] (bob_in ''b@x.com'') = ((''jwt.u1.b@x.com'', None), db') \<and>
      ''jwt.u1.b@x.com'' \<noteq> '''' \<and>
      ReadByEmail env0 db' (in_Email (bob_in ''b@x.com'')) = (u, None) \<and>
      Email u = in_Email (bob_in ''b@x.com'') \<and>
      Password u = hashPassword env0 (in_Password (bob_in ''b@x.com'')) \<and>
      Password u \<noteq> in_Password (bob_in ''b@x.com''))"
proof -
  have h1: "in_Email (bob_in ''b@x.com'') \<noteq> ''''"
    by (simp add: bob_in_def)
  have h2: "\<forall>u\<in>set [alice]. Email u \<noteq> in_Email (bob_in ''b@x.com'')"
    by (simp add: alice_def bob_in_def)
  have h3: "find_fault env0 = None" and h4: "insert_fault env0 = None"
    by (simp_all add: env0_def)
  have h5: "SignedString env0
      \<lparr>userid = uuid_New env0, email = in_Email (bob_in ''b@x.com''),
         exp = Unix (Add (time_Now_claims env0) (Hour * 72))\<rparr>
      (Getenv_JWT_SECRET env0) = (''jwt.u1.b@x.com'', None)"
    by (simp add: env0_def bob_in_def)
  have h6: "''jwt.u1.b@x.com'' \<noteq> ''''"
    by simp
  have h7: "fst (GenerateFromPassword env0 (in_Password (bob_in ''b@x.com'')) MinCost)
     \<noteq> in_Password (bob_in ''b@x.com'')"
    by (simp add: env0_def bob_in_def)
  from h2 have h2': "Email alice \<noteq> in_Email (bob_in ''b@x.com'')"
    by simp
  from SignUp_then_ReadByEmail [OF h1 h2 h3 h4 h5 h6 h7 h3] h1 h2' h3 h4 h7
  show ?thesis by blast
qed

section \<open>Login\<close>

text \<open>
  C6. When the email resolves to a stored user and the hasher's comparison of the stored
  digest with the submitted password fails, \<open>Login\<close> fails with the error of that
  comparison (the invalid-credentials error of the service) and its token is empty.
\<close>

theorem Login_wrong_password:
  assumes "ReadByEmail e db em = (u, None)"
    and "CompareHashAndPassword e (Password u) pw = Some err"
  shows "Login e db em pw = ('''', Some err) \<and> u \<in> set db \<and> Email u = em"
  using assms ReadByEmail_found [OF assms(1)] by (simp add: Login_def)

theorem Login_wrong_password_witness:
  "ReadByEmail env0 [alice] ''a@x.com'' = (alice, None) \<and>
   CompareHashAndPassword env0 (Password alice) ''wrong''
     = Some (LibError ''crypto/bcrypt: hashedPassword is not the hash of the given password'') \<and>
   Login env0 [alice] ''a@x.com'' ''wrong''
     = ('''', Some (LibError ''crypto/bcrypt: hashedPassword is not the hash of the given password''))"
proof -
  have h1: "ReadByEmail env0 [alice] ''a@x.com'' = (alice, None)"
    by (simp add: ReadByEmail_def FindOne_Decode_def env0_def alice_def)
  have h2: "CompareHashAndPassword env0 (Password alice) ''wrong''
     = Some (LibError ''crypto/bcrypt: hashedPassword is not the hash of the given password'')"
    by (simp add: env0_def alice_def)
  from Login_wrong_password [OF h1 h2] h1 h2 show ?thesis by simp
qed

section \<open>Tokens\<close>

text \<open>
  C7. Let \<open>parse\<close> be a decoder that, under the signing secret, gives back the claims of
  every token the signer produced. Then the token of a successful \<open>SignUp\<close>, \<open>Login\<close> or
  \<open>LoginPhoneOtp\<close> decodes to the id and the email of the user it was issued for (the
  user just created and stored; the stored user with that email; the stored user with that phone
  number), and an expiration 72 hours, in Unix seconds, after the instant of issuance.
\<close>

theorem token_claims_roundtrip:
  assumes rt: "\<And>c t. SignedString e c (Getenv_JWT_SECRET e) = (t, None) \<Longrightarrow>
                 parse (Getenv_JWT_SECRET e) t = Some c"
  shows "(SignUp e db inp = ((tok, None), db') \<longrightarrow>
            db' = db @ [bson_User (ToUser e inp)] \<and> Email (ToUser e inp) = in_Email inp \<and>
            parse (Getenv_JWT_SECRET e) tok
              = Some \<lparr>userid = ID (ToUser e inp), email = Email (ToUser e inp),
                      exp = Unix (time_Now_claims e) + 72 * 3600\<rparr>) \<and>
         (Login e db em pw = (tok, None) \<longrightarrow>
            (\<exists>u\<in>set db. Email u = em \<and>
               parse (Getenv_JWT_SECRET e) tok
                 = Some \<lparr>userid = ID u, email = Email u,
                         exp = Unix (time_Now_claims e) + 72 * 3600\<rparr>)) \<and>
         (LoginPhoneOtp e db ph = (tok, None) \<longrightarrow>
            (\<exists>u\<in>set db. PhoneNumber u = ph \<and>
               parse (Getenv_JWT_SECRET e) tok
                 = Some \<lparr>userid = ID u, email = Email u,
                         exp = Unix (time_Now_claims e) + 72 * 3600\<rparr>))"
proof (intro conjI impI)
  assume a: "SignUp e db inp = ((tok, None), db')"
  from SignUp_success [OF a] show "db' = db @ [bson_User (ToUser e inp)]"
    by simp
  show "Email (ToUser e inp) = in_Email inp"
    by simp
  from SignUp_success [OF a] rt
  show "parse (Getenv_JWT_SECRET e) tok
          = Some \<lparr>userid = ID (ToUser e inp), email = Email (ToUser e inp),
                  exp = Unix (time_Now_claims e) + 72 * 3600\<rparr>"
    by (auto simp: exp_72h)
next
  assume "Login e db em pw = (tok, None)"
  from Login_success [OF this] obtain u where r: "ReadByEmail e db em = (u, None)"
    and s: "SignedString e \<lparr>userid = ID u, email = Email u,
           exp = Unix (Add (time_Now_claims e) (Hour * 72))\<rparr> (Getenv_JWT_SECRET e) = (tok, None)"
    by blast
  from ReadByEmail_found [OF r] have "u \<in> set db" "Email u = em"
    by simp_all
  moreover from rt [OF s] have "parse (Getenv_JWT_SECRET e) tok
      = Some \<lparr>userid = ID u, email = Email u, exp = Unix (time_Now_claims e) + 72 * 3600\<rparr>"
    by (simp add: exp_72h)
  ultimately show "\<exists>u\<in>set db. Email u = em \<and>
               parse (Getenv_JWT_SECRET e) tok
                 = Some \<lparr>userid = ID u, email = Email u,
                         exp = Unix (time_Now_claims e) + 72 * 3600\<rparr>"
    by blast
next
  assume "LoginPhoneOtp e db ph = (tok, None)"
  from LoginPhoneOtp_success [OF this] obtain u where r: "ReadByPhoneNumber e db ph = (u, None)"
    and s: "SignedString e \<lparr>userid = ID u, email = Email u,
           exp = Unix (Add (time_Now_claims e) (Hour * 72))\<rparr> (Getenv_JWT_SECRET e) = (tok, None)"
    by blast
  from ReadByPhoneNumber_found [OF r] have "u \<in> set db" "PhoneNumber u = ph"
    by simp_all
  moreover from rt [OF s] have "parse (Getenv_JWT_SECRET e) tok
      = Some \<lparr>userid = ID u, email = Email u, exp = Unix (time_Now_claims e) + 72 * 3600\<rparr>"
    by (simp add: exp_72h)
  ultimately show "\<exists>u\<in>set db. PhoneNumber u = ph \<and>
               parse (Getenv_JWT_SECRET e) tok
                 = Some \<lparr>userid = ID u, email = Email u,
                         exp = Unix (time_Now_claims e) + 72 * 3600\<rparr>"
    by blast
qed

theorem token_claims_roundtrip_witness:
  "SignUp env_demo [alice] (bob_in ''b@x.com'')
     = ((''tokB'', None), [alice] @ [bson_User (ToUser env_demo (bob_in ''b@x.com''))]) \<and>
   demo_Parse (Getenv_JWT_SECRET env_demo) ''tokB''
     = Some \<lparr>userid = ''u1'', email = ''b@x.com'', exp = 1 + 72 * 3600\<rparr> \<and>
   Login env_demo [alice] ''a@x.com'' ''p1'' = (''tokA'', None) \<and>
   LoginPhoneOtp env_demo [alice] ''+15550100'' = (''tokA'', None) \<and>
   demo_Parse (Getenv_JWT_SECRET env_demo) ''tokA''
     = Some \<lparr>userid = ID alice, email = Email alice, exp = 1 + 72 * 3600\<rparr>"
proof -
  have rt: "\<And>c t. SignedString env_demo c (Getenv_JWT_SECRET env_demo) = (t, None) \<Longrightarrow>
              demo_Parse (Getenv_JWT_SECRET env_demo) t = Some c"
    by (simp add: env_demo_def demo_roundtrip)
  have a1: "SignUp env_demo [alice] (bob_in ''b@x.com'')
     = ((''tokB'', None), [alice] @ [bson_User (ToUser env_demo (bob_in ''b@x.com''))])"
    by (simp add: svc_defs repo_defs Unix_def Add_def Hour_def Second_def demo_SignedString_def
        env_demo_def env0_def alice_def bob_in_def)
  have a2: "Login env_demo [alice] ''a@x.com'' ''p1'' = (''tokA'', None)"
    by (simp add: svc_defs repo_defs Unix_def Add_def Hour_def Second_def demo_SignedString_def
        env_demo_def env0_def alice_def)
  have a3: "LoginPhoneOtp env_demo [alice] ''+15550100'' = (''tokA'', None)"
    by (simp add: svc_defs repo_defs Unix_def Add_def Hour_def Second_def demo_SignedString_def
        env_demo_def env0_def alice_def)
  have t: "Unix (time_Now_claims env_demo) = 1"
    by (simp add: Unix_def env_demo_def env0_def)
  have u: "ID (ToUser env_demo (bob_in ''b@x.com'')) = ''u1''"
    "Email (ToUser env_demo (bob_in ''b@x.com'')) = ''b@x.com''"
    by (simp_all add: env_demo_def env0_def bob_in_def)
  from token_claims_roundtrip [where e = env_demo and parse = demo_Parse and db = "[alice]"
      and inp = "bob_in ''b@x.com''" and tok = "''tokB''"
      and db' = "[alice] @ [bson_User (ToUser env_demo (bob_in ''b@x.com''))]", OF rt]
    a1 t u
  have c1: "demo_Parse (Getenv_JWT_SECRET env_demo) ''tokB''
     = Some \<lparr>userid = ''u1'', email = ''b@x.com'', exp = 1 + 72 * 3600\<rparr>"
    by simp
  from token_claims_roundtrip [where e = env_demo and parse = demo_Parse and db = "[alice]"
      and tok = "''tokA''" and em = "''a@x.com''" and pw = "''p1''", OF rt] a2 t
  have c2: "demo_Parse (Getenv_JWT_SECRET env_demo) ''tokA''
     = Some \<lparr>userid = ID alice, email = Email alice, exp = 1 + 72 * 3600\<rparr>"
    by simp
  from a1 a2 a3 c1 c2 show ?thesis by simp
qed

text \<open>
  C10. Whenever \<open>SignUp\<close>, \<open>Login\<close> or \<open>LoginPhoneOtp\<close> returns a non-nil error, the token
  it returns is the empty string, whatever the store, the hasher and the signer did.
\<close>

theorem token_empty_on_error:
  "(snd (fst (SignUp e db inp)) \<noteq> None \<longrightarrow> fst (fst (SignUp e db inp)) = '''') \<and>
   (snd (Login e db em pw) \<noteq> None \<longrightarrow> fst (Login e db em pw) = '''') \<and>
   (snd (LoginPhoneOtp e db ph) \<noteq> None \<longrightarrow> fst (LoginPhoneOtp e db ph) = '''')"
proof (intro conjI)
  show "snd (fst (SignUp e db inp)) \<noteq> None \<longrightarrow> fst (fst (SignUp e db inp)) = ''''"
    by (auto simp: SignUp_def Let_def split: prod.splits if_splits)
  show "snd (Login e db em pw) \<noteq> None \<longrightarrow> fst (Login e db em pw) = ''''"
    by (auto simp: Login_def Let_def split: prod.splits if_splits)
  show "snd (LoginPhoneOtp e db ph) \<noteq> None \<longrightarrow> fst (LoginPhoneOtp e db ph) = ''''"
    by (auto simp: LoginPhoneOtp_def Let_def split: prod.splits if_splits)
qed

theorem token_empty_on_error_witness:
  "snd (fst (SignUp env0 [alice] (bob_in ''a@x.com''))) \<noteq> None \<and>
   fst (fst (SignUp env0 [alice] (bob_in ''a@x.com''))) = '''' \<and>
   snd (Login env0 [alice] ''a@x.com'' ''wrong'') \<noteq> None \<and>
   fst (Login env0 [alice] ''a@x.com'' ''wrong'') = '''' \<and>
   snd (LoginPhoneOtp env0 [alice] ''+15550199'') \<noteq> None \<and>
   fst (LoginPhoneOtp env0 [alice] ''+15550199'') = ''''"
proof -
  have h1: "snd (fst (SignUp env0 [alice] (bob_in ''a@x.com''))) \<noteq> None"
    by (simp add: svc_defs repo_defs env0_def alice_def bob_in_def)
  have h2: "snd (Login env0 [alice] ''a@x.com'' ''wrong'') \<noteq> None"
    by (simp add: svc_defs repo_defs env0_def alice_def)
  have h3: "snd (LoginPhoneOtp env0 [alice] ''+15550199'') \<noteq> None"
    by (simp add: svc_defs repo_defs env0_def alice_def)
  from token_empty_on_error [of env0 "[alice]" "bob_in ''a@x.com''" "''a@x.com''" "''wrong''"
      "''+15550199''"] h1 h2 h3
  show ?thesis by simp
qed

section \<open>The outward representation\<close>

text \<open>
  C9. \<open>ToOutUser\<close> copies the ten fields ID, Name, Email, PhoneNumber, ProfilePic,
  UserType, Username, DateOfBirth, Gender and CreatedAt of the user; the record it builds
  has no password field, and it is the same record whatever the password of the user is.
\<close>

theorem ToOutUser_fields:
  "out_ID (ToOutUser u) = ID u \<and> out_Name (ToOutUser u) = Name u \<and>
   out_Email (ToOutUser u) = Email u \<and> out_PhoneNumber (ToOutUser u) = PhoneNumber u \<and>
   out_ProfilePic (ToOutUser u) = ProfilePic u \<and> out_UserType (ToOutUser u) = UserType u \<and>
   out_Username (ToOutUser u) = Username u \<and> out_DateOfBirth (ToOutUser u) = DateOfBirth u \<and>
   out_Gender (ToOutUser u) = Gender u \<and> out_CreatedAt (ToOutUser u) = CreatedAt u \<and>
   ToOutUser (u\<lparr>Password := p\<rparr>) = ToOutUser u"
  by (simp add: ToOutUser_def)

end
